theory Spec2Isabelle
  imports Complex_Main "HOL-Library.Sublist"
begin

section \<open>Exceptions\<close>

text \<open>
  A Python exception is identified by the name of its class and its message. The
  repository defines no exception class of its own and has no \<open>raise ... from\<close>: every
  failure is an exception of the standard library or of pydantic, raised by the call that
  failed. The traceback text that a process pool attaches to an exception coming back from
  a worker is not modelled.
\<close>

datatype exn = Exn (exn_class: string) (exn_msg: string)

definition ValueError :: "string \<Rightarrow> exn" where
  "ValueError msg = Exn ''ValueError'' msg"

definition RuntimeError :: "string \<Rightarrow> exn" where
  "RuntimeError msg = Exn ''RuntimeError'' msg"

definition OverflowError :: "string \<Rightarrow> exn" where
  "OverflowError msg = Exn ''OverflowError'' msg"

definition ValidationError :: "string \<Rightarrow> exn" where
  "ValidationError msg = Exn ''ValidationError'' msg"

text \<open>\<open>raises_kind kind r\<close>: the outcome \<open>r\<close> is an exception of class \<open>kind\<close>.\<close>

definition raises_kind :: "string \<Rightarrow> exn + 'a \<Rightarrow> bool" where
  "raises_kind kind r = (case r of Inl e \<Rightarrow> exn_class e = kind | Inr _ \<Rightarrow> False)"

section \<open>Data models (src/config/models.py)\<close>

text \<open>
  Python floats are modelled as reals: the durations are only read from the clock,
  subtracted and compared with zero, and no property below depends on rounding. NaN and
  the infinities are not represented.
\<close>

record AgentConfig =
  max_cpu_workers :: int
  mock_fetch_delay :: real
  mock_analysis_time :: real
  api_timeout :: real

text \<open>
  The field \<open>url\<close> of \<open>RawArticleData\<close> is named \<open>raw_url\<close> here, since a field name
  belongs to one record only; \<open>url\<close> is the field of \<open>ArticleAnalysisResult\<close>.
\<close>

record RawArticleData =
  raw_url :: string
  content :: string
  fetch_time :: real

record ArticleAnalysisResult =
  url :: string
  summary :: string
  category :: string
  entities :: "string list"
  analysis_time :: real

record NewsAgentReport =
  results :: "ArticleAnalysisResult list"
  total_articles_processed :: int
  total_time_taken :: real

subsection \<open>Construction of a pydantic model from keyword arguments\<close>

text \<open>
  \<open>NewsAgentReport\<close> is a pydantic \<open>BaseModel\<close> and is built from keyword arguments.
  The values research passes are a list of results, an int and floats.
\<close>

datatype pyval = PyInt int | PyFloat real | PyResults "ArticleAnalysisResult list"

text \<open>
  What a model does with a keyword that is not one of its fields. \<open>AgentConfig\<close> sets
  \<open>extra='ignore'\<close>; \<open>NewsAgentReport\<close> sets nothing, and the default of pydantic is
  \<open>ignore\<close>.
\<close>

datatype extra = ExtraIgnore | ExtraAllow | ExtraForbid

record field_info =
  field_name :: string
  field_validate :: "pyval \<Rightarrow> pyval option"
  field_default :: pyval

text \<open>
  Validation of one value against the annotation of a field (pydantic's lax mode). A float
  is accepted for an \<open>int\<close> field when it has no fractional part and fits a signed 64-bit
  integer.
\<close>

definition validate_results :: "pyval \<Rightarrow> pyval option" where
  "validate_results v = (case v of PyResults rs \<Rightarrow> Some (PyResults rs) | _ \<Rightarrow> None)"

definition validate_int :: "pyval \<Rightarrow> pyval option" where
  "validate_int v =
     (case v of
        PyInt n \<Rightarrow> Some (PyInt n)
      | PyFloat x \<Rightarrow>
          (if x = of_int \<lfloor>x\<rfloor> \<and> - (2 ^ 63) \<le> \<lfloor>x\<rfloor> \<and> \<lfloor>x\<rfloor> \<le> 2 ^ 63 - 1
           then Some (PyInt \<lfloor>x\<rfloor>) else None)
      | PyResults _ \<Rightarrow> None)"

definition validate_float :: "pyval \<Rightarrow> pyval option" where
  "validate_float v =
     (case v of
        PyInt n \<Rightarrow> Some (PyFloat (of_int n))
      | PyFloat x \<Rightarrow> Some (PyFloat x)
      | PyResults _ \<Rightarrow> None)"

text \<open>
  Every declared field takes the keyword argument of its name, validated, or its default
  when the keyword is absent. The result lists the fields in declaration order.
\<close>

fun validate_fields :: "field_info list \<Rightarrow> (string \<times> pyval) list \<Rightarrow> exn + (string \<times> pyval) list" where
  "validate_fields [] kwargs = Inr []"
| "validate_fields (f # fs) kwargs =
     (case (case map_of kwargs (field_name f) of
              None \<Rightarrow> Some (field_default f)
            | Some v \<Rightarrow> field_validate f v) of
        None \<Rightarrow> Inl (ValidationError (field_name f))
      | Some v \<Rightarrow>
          (case validate_fields fs kwargs of
             Inl e \<Rightarrow> Inl e
           | Inr rest \<Rightarrow> Inr ((field_name f, v) # rest)))"

definition BaseModel_init ::
  "extra \<Rightarrow> field_info list \<Rightarrow> (string \<times> pyval) list \<Rightarrow> exn + (string \<times> pyval) list" where
  "BaseModel_init policy model_fields kwargs =
     (let extras = filter (\<lambda>kv. fst kv \<notin> set (map field_name model_fields)) kwargs
      in if policy = ExtraForbid \<and> extras \<noteq> [] then Inl (ValidationError ''extra_forbidden'')
         else (case validate_fields model_fields kwargs of
                 Inl e \<Rightarrow> Inl e
               | Inr vs \<Rightarrow> Inr (if policy = ExtraAllow then vs @ extras else vs)))"

definition NewsAgentReport_fields :: "field_info list" where
  "NewsAgentReport_fields =
     [\<lparr>field_name = ''results'', field_validate = validate_results, field_default = PyResults []\<rparr>,
      \<lparr>field_name = ''total_articles_processed'', field_validate = validate_int, field_default = PyInt 0\<rparr>,
      \<lparr>field_name = ''total_time_taken'', field_validate = validate_float, field_default = PyFloat 0\<rparr>]"

definition NewsAgentReport_dict :: "(string \<times> pyval) list \<Rightarrow> exn + (string \<times> pyval) list" where
  "NewsAgentReport_dict kwargs = BaseModel_init ExtraIgnore NewsAgentReport_fields kwargs"

definition NewsAgentReport_init :: "(string \<times> pyval) list \<Rightarrow> exn + NewsAgentReport" where
  "NewsAgentReport_init kwargs =
     (case NewsAgentReport_dict kwargs of
        Inl e \<Rightarrow> Inl e
      | Inr d \<Rightarrow>
          (case (map_of d ''results'', map_of d ''total_articles_processed'',
                 map_of d ''total_time_taken'') of
             (Some (PyResults rs), Some (PyInt n), Some (PyFloat t)) \<Rightarrow>
               Inr \<lparr>results = rs, total_articles_processed = n, total_time_taken = t\<rparr>
           | _ \<Rightarrow> Inl (ValidationError ''NewsAgentReport'')))"

section \<open>The worker pool (src/utils/executor_manager.py)\<close>

text \<open>
  \<open>concurrent.futures.ProcessPoolExecutor\<close> (CPython on Linux), as far as the manager
  uses it: the worker limit given at construction, the number of worker processes the pool
  has started, and whether \<open>shutdown\<close> has been called.

  The constructor raises \<open>ValueError\<close> for a limit that is not positive. It bounds the
  queue of pending calls by a semaphore of value \<open>max_workers + 1\<close>, a C \<open>int\<close>, and so
  raises \<open>OverflowError\<close> for a limit of \<open>2^31 - 1\<close> or more. It starts no worker
  process: workers are started by later submissions.

  \<open>submit\<close> raises \<open>RuntimeError\<close> after \<open>shutdown\<close>. What a submission does to the
  pool (starting workers) is not tracked, since nothing below reads a pool after a
  submission; a pool whose worker died is not modelled.
\<close>

record ProcessPoolExecutor =
  pool_max_workers :: int
  pool_processes :: nat
  pool_shutdown :: bool

definition ProcessPoolExecutor_init :: "int \<Rightarrow> exn + ProcessPoolExecutor" where
  "ProcessPoolExecutor_init max_workers =
     (if max_workers \<le> 0 then Inl (ValueError ''max_workers must be greater than 0'')
      else if 2 ^ 31 - 1 \<le> max_workers
      then Inl (OverflowError ''Python int too large to convert to C int'')
      else Inr \<lparr>pool_max_workers = max_workers, pool_processes = 0, pool_shutdown = False\<rparr>)"

text \<open>\<open>shutdown(wait=True)\<close> joins the workers and refuses later submissions.\<close>

definition shutdown :: "ProcessPoolExecutor \<Rightarrow> ProcessPoolExecutor" where
  "shutdown p = p\<lparr>pool_processes := 0, pool_shutdown := True\<rparr>"

text \<open>
  \<open>submit p work\<close>: the outcome of the future that \<open>p.submit\<close> returns, where \<open>work\<close> is
  the outcome of the submitted call on a worker.
\<close>

definition submit :: "ProcessPoolExecutor \<Rightarrow> exn + 'a \<Rightarrow> exn + 'a" where
  "submit p work =
     (if pool_shutdown p then Inl (RuntimeError ''cannot schedule new futures after shutdown'')
      else work)"

text \<open>
  The state of an \<open>ExecutorManager\<close>: its attributes \<open>_max_workers\<close> and \<open>_executor\<close>.
  The operations return the new state of the manager.
\<close>

record ExecutorManager =
  priv_max_workers :: int
  priv_executor :: "ProcessPoolExecutor option"

definition ExecutorManager_init :: "int \<Rightarrow> ExecutorManager" where
  "ExecutorManager_init max_workers = \<lparr>priv_max_workers = max_workers, priv_executor = None\<rparr>"

definition aenter :: "ExecutorManager \<Rightarrow> exn + ExecutorManager" where
  "aenter m =
     (case ProcessPoolExecutor_init (priv_max_workers m) of
        Inl e \<Rightarrow> Inl e
      | Inr p \<Rightarrow> Inr (m\<lparr>priv_executor := Some p\<rparr>))"

text \<open>
  \<open>__aexit__\<close> returns nothing; it has no \<open>raise\<close> and calls only \<open>shutdown\<close>, so
  both of its branches return. The model returns the manager's new state, and the state in
  which the call leaves the pool object the manager held: that object stays reachable
  through a reference read from the \<open>executor\<close> property before.
\<close>

definition aexit ::
  "ExecutorManager \<Rightarrow> exn + ExecutorManager \<times> ProcessPoolExecutor option" where
  "aexit m =
     (case priv_executor m of
        Some p \<Rightarrow> Inr (m\<lparr>priv_executor := None\<rparr>, Some (shutdown p))
      | None \<Rightarrow> Inr (m, None))"

definition executor :: "ExecutorManager \<Rightarrow> exn + ProcessPoolExecutor" where
  "executor m =
     (case priv_executor m of
        None \<Rightarrow> Inl (RuntimeError
          ''Executor not initialized. Use ExecutorManager as an async context manager.'')
      | Some p \<Rightarrow> Inr p)"

text \<open>
  \<open>run_cpu_task_in_executor\<close> hands \<open>func(*args)\<close> to the pool and awaits the future;
  here \<open>func\<close> is applied to its two arguments.
\<close>

definition run_cpu_task_in_executor ::
  "ProcessPoolExecutor \<Rightarrow> ('a \<Rightarrow> 'b \<Rightarrow> exn + 'c) \<Rightarrow> 'a \<Rightarrow> 'b \<Rightarrow> exn + 'c" where
  "run_cpu_task_in_executor ex func a b = submit ex (func a b)"

section \<open>The mock collaborators (src/tools/mock_news_api.py)\<close>

text \<open>
  A call reads \<open>time.perf_counter\<close> when it starts and when it ends; the two readings
  are an input of the model. Printing is not modelled.
\<close>

type_synonym clock = "real \<times> real"

definition duration :: "clock \<Rightarrow> real" where
  "duration c = snd c - fst c"

text \<open>
  \<open>asyncio.sleep\<close> accepts every delay (a delay that is not positive yields once), so the
  mock fetch raises nothing.
\<close>

definition async_mock_fetch_article_content :: "string \<Rightarrow> real \<Rightarrow> clock \<Rightarrow> exn + RawArticleData" where
  "async_mock_fetch_article_content u delay c =
     Inr \<lparr>raw_url = u,
          content =
            ''This is the mock content for the article at '' @ u @ ''. '' @
            ''It discusses a breakthrough in AI engineering, using asyncio and hybrid workloads. '' @
            ''Key entities include Gemini, Pydantic, and ProcessPoolExecutor. '' @
            ''The article also touches on multi-agent systems and real-world applications.'',
          fetch_time = duration c\<rparr>"

text \<open>Python's \<open>needle in haystack\<close> on strings.\<close>

fun str_contains :: "string \<Rightarrow> string \<Rightarrow> bool" where
  "str_contains needle [] = (needle = [])"
| "str_contains needle (c # cs) = (prefix needle (c # cs) \<or> str_contains needle cs)"

text \<open>
  \<open>time.sleep\<close> first converts the duration to a signed 64-bit number of nanoseconds,
  rounding away from zero, and raises \<open>OverflowError\<close> when it does not fit; then it
  raises \<open>ValueError\<close> for a negative duration.
\<close>

definition cpu_mock_analyze_article_text ::
  "clock \<Rightarrow> RawArticleData \<Rightarrow> real \<Rightarrow> exn + ArticleAnalysisResult" where
  "cpu_mock_analyze_article_text c raw_article_data mock_analysis_time' =
     (if mock_analysis_time' * 10 ^ 9 > 2 ^ 63 - 1 \<or> mock_analysis_time' * 10 ^ 9 < - (2 ^ 63)
      then Inl (OverflowError ''timestamp too large to convert to C _PyTime_t'')
      else if mock_analysis_time' < 0
      then Inl (ValueError ''sleep length must be non-negative'')
      else Inr \<lparr>url = raw_url raw_article_data,
                summary = ''Summary of '' @ raw_url raw_article_data @
                  '': AI engineering concepts applied to multi-agent systems.'',
                category = (if str_contains ''AI engineering'' (content raw_article_data)
                            then ''Technology'' else ''General''),
                entities = [''Gemini'', ''Pydantic'', ''ProcessPoolExecutor'', ''asyncio''],
                analysis_time = duration c\<rparr>)"

section \<open>Strategies (src/agent/strategies.py)\<close>

text \<open>
  A strategy object is its \<open>process_article\<close> method, closed over the configuration the
  strategy was constructed with.
\<close>

type_synonym ResearchStrategy =
  "RawArticleData \<Rightarrow> ProcessPoolExecutor \<Rightarrow> clock \<Rightarrow> exn + ArticleAnalysisResult"

definition SummarizeCategorizeStrategy :: "AgentConfig \<Rightarrow> ResearchStrategy" where
  "SummarizeCategorizeStrategy agent_config' raw_article_data ex c =
     run_cpu_task_in_executor ex (cpu_mock_analyze_article_text c)
       raw_article_data (mock_analysis_time agent_config')"

section \<open>The agent (src/agent/news_agent.py)\<close>

text \<open>
  \<open>asyncio.gather\<close> on a list of awaitables. Each has an outcome; the scheduler decides
  the order in which they complete (\<open>order\<close>, a list of indices). The first exception in
  completion order is raised to the caller; an index that \<open>order\<close> leaves out completes
  after those it lists, in index order. If nothing fails, the values are returned in the
  order of the arguments.
\<close>

definition first_failure :: "nat list \<Rightarrow> ('e + 'a) list \<Rightarrow> 'e option" where
  "first_failure order outs =
     (case filter (\<lambda>i. i < length outs \<and> isl (outs ! i)) (order @ [0..<length outs]) of
        [] \<Rightarrow> None
      | i # _ \<Rightarrow> Some (projl (outs ! i)))"

definition gather :: "nat list \<Rightarrow> ('e + 'a) list \<Rightarrow> 'e + 'a list" where
  "gather order outs =
     (case first_failure order outs of
        Some e \<Rightarrow> Inl e
      | None \<Rightarrow> Inr (map projr outs))"

text \<open>
  A list comprehension whose element expression may raise: elements are evaluated in
  order and the first exception ends the comprehension.
\<close>

fun comprehension :: "('a \<Rightarrow> 'e + 'b) \<Rightarrow> 'a list \<Rightarrow> 'e + 'b list" where
  "comprehension f [] = Inr []"
| "comprehension f (x # xs) =
     (case f x of
        Inl e \<Rightarrow> Inl e
      | Inr y \<Rightarrow> (case comprehension f xs of Inl e \<Rightarrow> Inl e | Inr ys \<Rightarrow> Inr (y # ys)))"

text \<open>
  What one call of \<open>research\<close> observes from outside: the clock readings of research
  itself, of the i-th fetch and of the i-th analysis, and the completion orders of the two
  gathered batches.
\<close>

record env =
  research_clock :: clock
  fetch_clock :: "nat \<Rightarrow> clock"
  analysis_clock :: "nat \<Rightarrow> clock"
  fetch_order :: "nat list"
  process_order :: "nat list"

text \<open>
  The agent holds its configuration and the strategy built from it by the constructor. It
  also holds a reference to the executor manager; the manager's state at the time of the
  call is an argument of \<open>research\<close>.
\<close>

record NewsArticleAgent =
  agent_config :: AgentConfig
  strategy :: ResearchStrategy

definition NewsArticleAgent_init :: "AgentConfig \<Rightarrow> (AgentConfig \<Rightarrow> ResearchStrategy) \<Rightarrow> NewsArticleAgent" where
  "NewsArticleAgent_init agent_config' strategy_type =
     \<lparr>agent_config = agent_config', strategy = strategy_type agent_config'\<rparr>"

text \<open>
  The two lists of awaitables that \<open>research\<close> builds, as the outcomes of their
  elements. Building \<open>process_tasks\<close> reads the \<open>executor\<close> property once for every
  fetched article, which raises when the manager holds no pool.
\<close>

definition fetch_tasks ::
  "(string \<Rightarrow> real \<Rightarrow> clock \<Rightarrow> exn + RawArticleData) \<Rightarrow> NewsArticleAgent \<Rightarrow> env \<Rightarrow> string list
     \<Rightarrow> (exn + RawArticleData) list" where
  "fetch_tasks fetch self ev urls =
     map (\<lambda>(i, u). fetch u (mock_fetch_delay (agent_config self)) (fetch_clock ev i))
       (enumerate 0 urls)"

definition process_tasks ::
  "NewsArticleAgent \<Rightarrow> ExecutorManager \<Rightarrow> env \<Rightarrow> RawArticleData list
     \<Rightarrow> exn + (exn + ArticleAnalysisResult) list" where
  "process_tasks self executor_manager ev all_raw_articles =
     comprehension
       (\<lambda>(i, raw_article).
          case executor executor_manager of
            Inl e \<Rightarrow> Inl e
          | Inr ex \<Rightarrow> Inr (strategy self raw_article ex (analysis_clock ev i)))
       (enumerate 0 all_raw_articles)"

text \<open>
  The body of \<open>research\<close>, with the fetch function it calls as a parameter. The statements
  after the first \<open>return\<close> of the source are unreachable.
\<close>

definition research_with ::
  "(string \<Rightarrow> real \<Rightarrow> clock \<Rightarrow> exn + RawArticleData) \<Rightarrow> NewsArticleAgent \<Rightarrow> ExecutorManager \<Rightarrow> env
     \<Rightarrow> string list \<Rightarrow> exn + NewsAgentReport" where
  "research_with fetch self executor_manager ev urls =
     (case gather (fetch_order ev) (fetch_tasks fetch self ev urls) of
        Inl e \<Rightarrow> Inl e
      | Inr all_raw_articles \<Rightarrow>
          (case process_tasks self executor_manager ev all_raw_articles of
             Inl e \<Rightarrow> Inl e
           | Inr tasks \<Rightarrow>
               (case gather (process_order ev) tasks of
                  Inl e \<Rightarrow> Inl e
                | Inr all_analysis_results \<Rightarrow>
                    (let total_duration = duration (research_clock ev)
                     in NewsAgentReport_init
                          [(''results'', PyResults all_analysis_results),
                           (''total_articles_processed'', PyInt (int (length urls))),
                           (''total_time_taken'', PyFloat total_duration),
                           (''total_duration'', PyFloat total_duration)]))))"

definition research ::
  "NewsArticleAgent \<Rightarrow> ExecutorManager \<Rightarrow> env \<Rightarrow> string list \<Rightarrow> exn + NewsAgentReport" where
  "research = research_with async_mock_fetch_article_content"

section \<open>Fixtures (tests/integration/test_agent_workflow.py)\<close>

text \<open>
  The configuration of the \<open>agent_config\<close> fixture, and the state of the manager of the
  \<open>executor_manager\<close> fixture inside its \<open>async with\<close> block.
\<close>

definition agent_config_fixture :: AgentConfig where
  "agent_config_fixture =
     \<lparr>max_cpu_workers = 2, mock_fetch_delay = 1 / 10, mock_analysis_time = 2 / 10,
      api_timeout = 5\<rparr>"

definition executor_manager_fixture :: ExecutorManager where
  "executor_manager_fixture =
     \<lparr>priv_max_workers = 2,
      priv_executor = Some \<lparr>pool_max_workers = 2, pool_processes = 0, pool_shutdown = False\<rparr>\<rparr>"

text \<open>An environment for the examples: the second task of each batch completes first.\<close>

definition sample_env :: env where
  "sample_env =
     \<lparr>research_clock = (0, 1), fetch_clock = (\<lambda>i. (0, 1 / 4)),
      analysis_clock = (\<lambda>i. (1 / 4, 1)), fetch_order = [1, 0], process_order = [1, 0]\<rparr>"

section \<open>Properties of the building blocks\<close>

lemma str_contains_sublist: "str_contains needle hay \<longleftrightarrow> sublist needle hay"
  by (induction hay) (auto simp: sublist_Cons_right)

lemma first_failure_None_iff:
  "first_failure order outs = None \<longleftrightarrow> (\<forall>x \<in> set outs. \<not> isl x)"
proof -
  have "filter (\<lambda>i. i < length outs \<and> isl (outs ! i)) (order @ [0..<length outs]) = []
        \<longleftrightarrow> (\<forall>x \<in> set outs. \<not> isl x)"
    by (auto simp: filter_empty_conv all_set_conv_all_nth)
  then show ?thesis
    by (auto simp: first_failure_def split: list.splits)
qed

lemma gather_Inr_iff: "gather order outs = Inr xs \<longleftrightarrow> outs = map Inr xs"
proof
  assume "gather order outs = Inr xs"
  then have n: "first_failure order outs = None" and xs: "xs = map projr outs"
    by (auto simp: gather_def split: option.splits)
  from n have "\<forall>x \<in> set outs. \<not> isl x" by (simp add: first_failure_None_iff)
  then have "map Inr (map projr outs) = outs"
    by (induction outs) (auto simp: sum.collapse(2))
  with xs show "outs = map Inr xs" by simp
next
  assume "outs = map Inr xs"
  then have "first_failure order outs = None" and "map projr outs = xs"
    by (auto simp: first_failure_None_iff comp_def)
  then show "gather order outs = Inr xs" by (simp add: gather_def)
qed

text \<open>The exception that \<open>gather\<close> raises is the first failure in completion order.\<close>

lemma gather_first_failure:
  assumes k: "k < length order"
    and i: "order ! k < length outs"
    and e: "outs ! (order ! k) = Inl e"
    and before: "\<forall>j<k. order ! j < length outs \<longrightarrow> \<not> isl (outs ! (order ! j))"
  shows "gather order outs = Inl e"
proof -
  let ?P = "\<lambda>i. i < length outs \<and> isl (outs ! i)"
  have o: "order = take k order @ (order ! k) # drop (Suc k) order"
    using k by (simp add: id_take_nth_drop)
  have "filter ?P (take k order) = []"
    using before k by (auto simp: filter_empty_conv in_set_conv_nth)
  moreover have "?P (order ! k)" using i e by simp
  ultimately have "filter ?P order = (order ! k) # filter ?P (drop (Suc k) order)"
    by (subst o) simp
  then show ?thesis using e by (simp add: gather_def first_failure_def)
qed

lemma comprehension_Inr_iff: "comprehension f xs = Inr ys \<longleftrightarrow> map f xs = map Inr ys"
proof (induction xs arbitrary: ys)
  case Nil
  then show ?case by auto
next
  case (Cons x xs)
  show ?case
  proof (cases "f x")
    case (Inl e)
    then show ?thesis by auto
  next
    case fx: (Inr y)
    show ?thesis
    proof (cases "comprehension f xs")
      case (Inl e)
      with Cons.IH have "\<And>zs. map f xs \<noteq> map Inr zs" by simp
      with Inl fx show ?thesis by (auto simp: map_eq_Cons_conv)
    next
      case (Inr zs)
      have "map f xs = map Inr zs" using Cons.IH [of zs] Inr by simp
      with Inr fx show ?thesis by (auto simp: inj_map_eq_map)
    qed
  qed
qed

lemma NewsAgentReport_dict_research:
  "NewsAgentReport_dict
     [(''results'', PyResults rs), (''total_articles_processed'', PyInt n),
      (''total_time_taken'', PyFloat d), (''total_duration'', PyFloat d)]
   = Inr [(''results'', PyResults rs), (''total_articles_processed'', PyInt n),
          (''total_time_taken'', PyFloat d)]"
  by (simp add: NewsAgentReport_dict_def BaseModel_init_def NewsAgentReport_fields_def
      validate_results_def validate_int_def validate_float_def)

lemma NewsAgentReport_init_research:
  "NewsAgentReport_init
     [(''results'', PyResults rs), (''total_articles_processed'', PyInt n),
      (''total_time_taken'', PyFloat d), (''total_duration'', PyFloat d)]
   = Inr \<lparr>results = rs, total_articles_processed = n, total_time_taken = d\<rparr>"
  by (simp add: NewsAgentReport_init_def NewsAgentReport_dict_research)

lemma research_with_Inr:
  assumes "research_with fetch self mgr ev urls = Inr report"
  shows "\<exists>raws rs. fetch_tasks fetch self ev urls = map Inr raws
           \<and> process_tasks self mgr ev raws = Inr (map Inr rs)
           \<and> report = \<lparr>results = rs, total_articles_processed = int (length urls),
                         total_time_taken = duration (research_clock ev)\<rparr>"
  using assms
  by (auto simp: research_with_def gather_Inr_iff NewsAgentReport_init_research Let_def
      split: sum.splits)

lemma length_fetch_tasks: "length (fetch_tasks fetch self ev urls) = length urls"
  by (simp add: fetch_tasks_def)

lemma nth_fetch_tasks:
  "i < length urls \<Longrightarrow> fetch_tasks fetch self ev urls ! i
     = fetch (urls ! i) (mock_fetch_delay (agent_config self)) (fetch_clock ev i)"
  by (simp add: fetch_tasks_def nth_enumerate_eq)

lemma process_tasks_Inr:
  assumes "process_tasks self mgr ev raws = Inr tasks"
  shows "length tasks = length raws"
    and "i < length raws \<Longrightarrow> \<exists>ex. executor mgr = Inr ex
           \<and> tasks ! i = strategy self (raws ! i) ex (analysis_clock ev i)"
proof -
  from assms have m: "map (\<lambda>(i, raw_article).
          case executor mgr of Inl e \<Rightarrow> Inl e
          | Inr ex \<Rightarrow> Inr (strategy self raw_article ex (analysis_clock ev i)))
       (enumerate 0 raws) = map Inr tasks"
    by (simp add: process_tasks_def comprehension_Inr_iff)
  from arg_cong [OF m, of length] show len: "length tasks = length raws" by simp
  assume i: "i < length raws"
  from arg_cong [OF m, of "\<lambda>xs. xs ! i"] i len
  have "(case executor mgr of Inl e \<Rightarrow> Inl e
          | Inr ex \<Rightarrow> Inr (strategy self (raws ! i) ex (analysis_clock ev i))) = Inr (tasks ! i)"
    by (simp add: nth_enumerate_eq)
  then show "\<exists>ex. executor mgr = Inr ex
           \<and> tasks ! i = strategy self (raws ! i) ex (analysis_clock ev i)"
    by (auto split: sum.splits)
qed

lemma process_tasks_executor:
  "executor mgr = Inr ex \<Longrightarrow> process_tasks self mgr ev raws
     = Inr (map (\<lambda>(i, raw). strategy self raw ex (analysis_clock ev i)) (enumerate 0 raws))"
  by (simp add: process_tasks_def comprehension_Inr_iff case_prod_unfold)

lemma strategy_success:
  assumes "\<not> pool_shutdown ex" "0 \<le> mock_analysis_time cfg"
    "mock_analysis_time cfg * 10 ^ 9 \<le> 2 ^ 63 - 1"
  shows "SummarizeCategorizeStrategy cfg raw ex c =
     Inr \<lparr>url = raw_url raw,
          summary = ''Summary of '' @ raw_url raw @
            '': AI engineering concepts applied to multi-agent systems.'',
          category = (if sublist ''AI engineering'' (content raw)
                      then ''Technology'' else ''General''),
          entities = [''Gemini'', ''Pydantic'', ''ProcessPoolExecutor'', ''asyncio''],
          analysis_time = duration c\<rparr>"
  using assms
  by (simp add: SummarizeCategorizeStrategy_def run_cpu_task_in_executor_def submit_def
      cpu_mock_analyze_article_text_def str_contains_sublist)

text \<open>The provided strategy returns exactly under the three conditions above.\<close>

lemma strategy_returns_iff:
  "(\<exists>r. SummarizeCategorizeStrategy cfg raw ex c = Inr r)
   \<longleftrightarrow> \<not> pool_shutdown ex \<and> 0 \<le> mock_analysis_time cfg
       \<and> mock_analysis_time cfg * 10 ^ 9 \<le> 2 ^ 63 - 1"
proof
  assume "\<exists>r. SummarizeCategorizeStrategy cfg raw ex c = Inr r"
  then show "\<not> pool_shutdown ex \<and> 0 \<le> mock_analysis_time cfg
       \<and> mock_analysis_time cfg * 10 ^ 9 \<le> 2 ^ 63 - 1"
    by (auto simp: SummarizeCategorizeStrategy_def run_cpu_task_in_executor_def submit_def
        cpu_mock_analyze_article_text_def split: if_splits)
next
  assume "\<not> pool_shutdown ex \<and> 0 \<le> mock_analysis_time cfg
       \<and> mock_analysis_time cfg * 10 ^ 9 \<le> 2 ^ 63 - 1"
  then show "\<exists>r. SummarizeCategorizeStrategy cfg raw ex c = Inr r"
    by (simp add: strategy_success)
qed

lemma strategy_Inr_url:
  "SummarizeCategorizeStrategy cfg raw ex c = Inr r \<Longrightarrow> url r = raw_url raw"
  by (auto simp: SummarizeCategorizeStrategy_def run_cpu_task_in_executor_def submit_def
      cpu_mock_analyze_article_text_def split: if_splits)

lemma strategy_Inr_category:
  "SummarizeCategorizeStrategy cfg raw ex c = Inr r \<Longrightarrow>
     category r = (if sublist ''AI engineering'' (content raw) then ''Technology'' else ''General'')"
  by (auto simp: SummarizeCategorizeStrategy_def run_cpu_task_in_executor_def submit_def
      cpu_mock_analyze_article_text_def str_contains_sublist split: if_splits)

lemma mock_content_marker:
  "sublist ''AI engineering''
     (''This is the mock content for the article at '' @ u @ ''. '' @
      ''It discusses a breakthrough in AI engineering, using asyncio and hybrid workloads. '' @
      ''Key entities include Gemini, Pydantic, and ProcessPoolExecutor. '' @
      ''The article also touches on multi-agent systems and real-world applications.'')"
  unfolding sublist_def
  by (rule exI [of _ "''This is the mock content for the article at '' @ u @
        ''. It discusses a breakthrough in ''"],
      rule exI [of _ "'', using asyncio and hybrid workloads. '' @
        ''Key entities include Gemini, Pydantic, and ProcessPoolExecutor. '' @
        ''The article also touches on multi-agent systems and real-world applications.''"],
      simp)

lemma mock_fetch_Inr:
  assumes "async_mock_fetch_article_content u d c = Inr raw"
  shows "raw_url raw = u" and "sublist ''AI engineering'' (content raw)"
proof -
  have "raw_url (projr (async_mock_fetch_article_content u d c)) = u"
    by (simp only: async_mock_fetch_article_content_def sum.sel RawArticleData.select_convs)
  moreover have "sublist ''AI engineering'' (content (projr (async_mock_fetch_article_content u d c)))"
    by (simp only: async_mock_fetch_article_content_def sum.sel RawArticleData.select_convs
        mock_content_marker)
  ultimately show "raw_url raw = u" and "sublist ''AI engineering'' (content raw)"
    using assms by simp_all
qed

lemma research_nth:
  assumes r: "research (NewsArticleAgent_init cfg SummarizeCategorizeStrategy) mgr ev urls = Inr report"
  shows "length (results report) = length urls"
    and "i < length urls \<Longrightarrow> \<exists>ex raw. executor mgr = Inr ex \<and> raw_url raw = urls ! i
           \<and> sublist ''AI engineering'' (content raw)
           \<and> SummarizeCategorizeStrategy cfg raw ex (analysis_clock ev i)
               = Inr (results report ! i)"
proof -
  let ?self = "NewsArticleAgent_init cfg SummarizeCategorizeStrategy"
  from r obtain raws rs where
    f: "fetch_tasks async_mock_fetch_article_content ?self ev urls = map Inr raws"
    and p: "process_tasks ?self mgr ev raws = Inr (map Inr rs)"
    and rep: "results report = rs"
    unfolding research_def by (auto dest!: research_with_Inr)
  from arg_cong [OF f, of length] have lr: "length raws = length urls"
    by (simp add: length_fetch_tasks)
  from process_tasks_Inr(1) [OF p] have lrs: "length rs = length raws" by simp
  from lr lrs rep show "length (results report) = length urls" by simp
  assume i: "i < length urls"
  from arg_cong [OF f, of "\<lambda>xs. xs ! i"] i lr
  have "async_mock_fetch_article_content (urls ! i) (mock_fetch_delay (agent_config ?self))
          (fetch_clock ev i) = Inr (raws ! i)"
    by (simp add: nth_fetch_tasks)
  then have raw: "raw_url (raws ! i) = urls ! i"
    and marker: "sublist ''AI engineering'' (content (raws ! i))"
    by (rule mock_fetch_Inr)+
  from process_tasks_Inr(2) [OF p, of i] i lr lrs
  obtain ex where "executor mgr = Inr ex"
    and "Inr (rs ! i) = strategy ?self (raws ! i) ex (analysis_clock ev i)"
    by auto
  with raw marker rep show "\<exists>ex raw. executor mgr = Inr ex \<and> raw_url raw = urls ! i
           \<and> sublist ''AI engineering'' (content raw)
           \<and> SummarizeCategorizeStrategy cfg raw ex (analysis_clock ev i)
               = Inr (results report ! i)"
    by (auto simp: NewsArticleAgent_init_def)
qed

text \<open>Evaluation of \<open>research\<close> on the fixtures.\<close>

lemmas eval_defs = research_def research_with_def fetch_tasks_def process_tasks_def gather_def
  first_failure_def executor_def NewsArticleAgent_init_def SummarizeCategorizeStrategy_def
  run_cpu_task_in_executor_def submit_def cpu_mock_analyze_article_text_def
  async_mock_fetch_article_content_def duration_def NewsAgentReport_init_def
  NewsAgentReport_dict_def BaseModel_init_def NewsAgentReport_fields_def
  validate_results_def validate_int_def validate_float_def
  agent_config_fixture_def executor_manager_fixture_def sample_env_def

lemma research_fixture:
  "research (NewsArticleAgent_init agent_config_fixture SummarizeCategorizeStrategy)
       executor_manager_fixture sample_env [''b'', ''a'']
   = Inr \<lparr>results =
            [\<lparr>url = ''b'',
              summary = ''Summary of b: AI engineering concepts applied to multi-agent systems.'',
              category = ''Technology'',
              entities = [''Gemini'', ''Pydantic'', ''ProcessPoolExecutor'', ''asyncio''],
              analysis_time = 3 / 4\<rparr>,
             \<lparr>url = ''a'',
              summary = ''Summary of a: AI engineering concepts applied to multi-agent systems.'',
              category = ''Technology'',
              entities = [''Gemini'', ''Pydantic'', ''ProcessPoolExecutor'', ''asyncio''],
              analysis_time = 3 / 4\<rparr>],
          total_articles_processed = 2, total_time_taken = 1\<rparr>"
  by (simp add: eval_defs)

section \<open>The claims\<close>

text \<open>
  Claim C1. Whenever \<open>research\<close> returns a report for a list of urls, the report's
  \<open>total_articles_processed\<close> is the number of urls, \<open>results\<close> has one entry per url,
  and the i-th result carries the i-th url. This holds for every environment, hence for
  every completion order of the fetches and of the analyses.
\<close>

theorem research_results_aligned:
  assumes "research (NewsArticleAgent_init cfg SummarizeCategorizeStrategy) mgr ev urls = Inr report"
  shows "total_articles_processed report = int (length urls)
       \<and> length (results report) = length urls
       \<and> (\<forall>i<length urls. url (results report ! i) = urls ! i)"
proof (intro conjI allI impI)
  from assms show "total_articles_processed report = int (length urls)"
    unfolding research_def by (auto dest!: research_with_Inr)
  show "length (results report) = length urls" by (rule research_nth(1) [OF assms])
  fix i assume "i < length urls"
  from research_nth(2) [OF assms this] show "url (results report ! i) = urls ! i"
    by (auto dest: strategy_Inr_url)
qed

text \<open>An instance of claim C1 on concrete values.\<close>

theorem research_results_aligned_witness:
  "\<not> isl (research (NewsArticleAgent_init agent_config_fixture SummarizeCategorizeStrategy)
       executor_manager_fixture sample_env [''b'', ''a''])
   \<and> total_articles_processed
       (projr (research (NewsArticleAgent_init agent_config_fixture SummarizeCategorizeStrategy)
       executor_manager_fixture sample_env [''b'', ''a'']))
     = int (length [''b'', ''a''])
   \<and> length (results
       (projr (research (NewsArticleAgent_init agent_config_fixture SummarizeCategorizeStrategy)
       executor_manager_fixture sample_env [''b'', ''a''])))
     = length [''b'', ''a'']
   \<and> (1::nat) < length [''b'', ''a'']
   \<and> url (results
       (projr (research (NewsArticleAgent_init agent_config_fixture SummarizeCategorizeStrategy)
       executor_manager_fixture sample_env [''b'', ''a''])) ! 1)
     = [''b'', ''a''] ! 1"
proof -
  have h: "research (NewsArticleAgent_init agent_config_fixture SummarizeCategorizeStrategy)
             executor_manager_fixture sample_env [''b'', ''a'']
           = Inr (projr (research (NewsArticleAgent_init agent_config_fixture SummarizeCategorizeStrategy)
       executor_manager_fixture sample_env
                    [''b'', ''a'']))"
    by (simp add: research_fixture)
  from research_results_aligned [OF h] show ?thesis
    by (simp add: research_fixture)
qed

text \<open>
  Claim C2, as stated, fails: the agent wraps nothing. With a negative
  \<open>mock_analysis_time\<close> the analysis of an article raises the \<open>ValueError\<close> of
  \<open>time.sleep\<close>, and \<open>research\<close> fails with that very \<open>ValueError\<close>, not with an
  exception of class \<open>ProcessingError\<close>.
\<close>

theorem research_processing_failure_counterexample:
  "cpu_mock_analyze_article_text (1 / 4, 1)
     \<lparr>raw_url = ''http://mock.test/article1'', content = ''AI engineering'', fetch_time = 0\<rparr>
     (- 1)
   = Inl (ValueError ''sleep length must be non-negative'')
   \<and> research
       (NewsArticleAgent_init (agent_config_fixture\<lparr>mock_analysis_time := - 1\<rparr>)
          SummarizeCategorizeStrategy)
       executor_manager_fixture sample_env [''http://mock.test/article1'']
     = Inl (ValueError ''sleep length must be non-negative'')
   \<and> \<not> raises_kind ''ProcessingError''
         (research
            (NewsArticleAgent_init (agent_config_fixture\<lparr>mock_analysis_time := - 1\<rparr>)
               SummarizeCategorizeStrategy)
            executor_manager_fixture sample_env [''http://mock.test/article1''])"
  by (simp add: eval_defs raises_kind_def ValueError_def)

text \<open>
  Claim C2, amended. If a fetch fails, \<open>research\<close> fails with the exception of the fetch
  that is the first to fail in completion order, as it was raised, and returns no report.
  If every fetch succeeds, the pool is available and a processing call fails, \<open>research\<close>
  fails with the exception of the processing call that is the first to fail in completion
  order, as it was raised, and returns no report. Nothing is caught, wrapped or retried.
\<close>

theorem research_failure_propagates:
  "(k < length (fetch_order ev) \<and> fetch_order ev ! k < length urls
      \<and> fetch_tasks fetch self ev urls ! (fetch_order ev ! k) = Inl e
      \<and> (\<forall>j<k. fetch_order ev ! j < length urls
            \<longrightarrow> \<not> isl (fetch_tasks fetch self ev urls ! (fetch_order ev ! j)))
     \<longrightarrow> research_with fetch self mgr ev urls = Inl e)
   \<and> (fetch_tasks fetch self ev urls = map Inr raws \<and> executor mgr = Inr ex
      \<and> k < length (process_order ev) \<and> process_order ev ! k < length raws
      \<and> strategy self (raws ! (process_order ev ! k)) ex (analysis_clock ev (process_order ev ! k))
          = Inl e
      \<and> (\<forall>j<k. process_order ev ! j < length raws
            \<longrightarrow> \<not> isl (strategy self (raws ! (process_order ev ! j)) ex
                        (analysis_clock ev (process_order ev ! j))))
     \<longrightarrow> research_with fetch self mgr ev urls = Inl e)"
proof (intro conjI impI; elim conjE)
  assume "k < length (fetch_order ev)" "fetch_order ev ! k < length urls"
    "fetch_tasks fetch self ev urls ! (fetch_order ev ! k) = Inl e"
    "\<forall>j<k. fetch_order ev ! j < length urls
       \<longrightarrow> \<not> isl (fetch_tasks fetch self ev urls ! (fetch_order ev ! j))"
  then have "gather (fetch_order ev) (fetch_tasks fetch self ev urls) = Inl e"
    by (intro gather_first_failure [of k]) (simp_all add: length_fetch_tasks)
  then show "research_with fetch self mgr ev urls = Inl e"
    by (simp add: research_with_def)
next
  let ?tasks = "map (\<lambda>(i, raw). strategy self raw ex (analysis_clock ev i)) (enumerate 0 raws)"
  assume f: "fetch_tasks fetch self ev urls = map Inr raws"
    and x: "executor mgr = Inr ex"
    and k: "k < length (process_order ev)" "process_order ev ! k < length raws"
    and e: "strategy self (raws ! (process_order ev ! k)) ex
              (analysis_clock ev (process_order ev ! k)) = Inl e"
    and b: "\<forall>j<k. process_order ev ! j < length raws
            \<longrightarrow> \<not> isl (strategy self (raws ! (process_order ev ! j)) ex
                        (analysis_clock ev (process_order ev ! j)))"
  from f have g: "gather (fetch_order ev) (fetch_tasks fetch self ev urls) = Inr raws"
    by (simp add: gather_Inr_iff)
  have p: "process_tasks self mgr ev raws = Inr ?tasks"
    by (rule process_tasks_executor [OF x])
  have "gather (process_order ev) ?tasks = Inl e"
    using k e b by (intro gather_first_failure [of k]) (simp_all add: nth_enumerate_eq)
  with g p show "research_with fetch self mgr ev urls = Inl e"
    by (simp add: research_with_def)
qed

text \<open>An instance of claim C2, amended, on concrete values.\<close>

theorem research_failure_propagates_witness:
  "((1::nat) < length (fetch_order sample_env) \<and> fetch_order sample_env ! 1 < length [''bad'', ''ok'']
      \<and> fetch_tasks
           (\<lambda>u d c. if u = ''bad'' then Inl (Exn ''ConnectionError'' ''refused'')
                     else async_mock_fetch_article_content u d c)
           (NewsArticleAgent_init agent_config_fixture SummarizeCategorizeStrategy) sample_env
           [''bad'', ''ok''] ! (fetch_order sample_env ! 1)
         = Inl (Exn ''ConnectionError'' ''refused'')
      \<and> research_with
           (\<lambda>u d c. if u = ''bad'' then Inl (Exn ''ConnectionError'' ''refused'')
                     else async_mock_fetch_article_content u d c)
           (NewsArticleAgent_init agent_config_fixture SummarizeCategorizeStrategy)
           executor_manager_fixture sample_env [''bad'', ''ok'']
         = Inl (Exn ''ConnectionError'' ''refused''))
   \<and> (executor executor_manager_fixture = Inr \<lparr>pool_max_workers = 2, pool_processes = 0, pool_shutdown = False\<rparr>
      \<and> (0::nat) < length (process_order sample_env)
      \<and> strategy
           (NewsArticleAgent_init (agent_config_fixture\<lparr>mock_analysis_time := - 1\<rparr>)
              SummarizeCategorizeStrategy)
           (projr (async_mock_fetch_article_content ''b'' (1 / 10) (0, 1 / 4)))
           \<lparr>pool_max_workers = 2, pool_processes = 0, pool_shutdown = False\<rparr> (1 / 4, 1)
         = Inl (ValueError ''sleep length must be non-negative'')
      \<and> research_with async_mock_fetch_article_content
           (NewsArticleAgent_init (agent_config_fixture\<lparr>mock_analysis_time := - 1\<rparr>)
              SummarizeCategorizeStrategy)
           executor_manager_fixture sample_env [''a'', ''b'']
         = Inl (ValueError ''sleep length must be non-negative''))"
  using
    research_failure_propagates [of 1 sample_env "[''bad'', ''ok'']"
      "\<lambda>u d c. if u = ''bad'' then Inl (Exn ''ConnectionError'' ''refused'')
               else async_mock_fetch_article_content u d c"
      "NewsArticleAgent_init agent_config_fixture SummarizeCategorizeStrategy"
      "Exn ''ConnectionError'' ''refused''" executor_manager_fixture, THEN conjunct1]
    research_failure_propagates [of 0 sample_env "[''a'', ''b'']"
      async_mock_fetch_article_content
      "NewsArticleAgent_init (agent_config_fixture\<lparr>mock_analysis_time := - 1\<rparr>)
         SummarizeCategorizeStrategy"
      "ValueError ''sleep length must be non-negative''" executor_manager_fixture
      "[projr (async_mock_fetch_article_content ''a'' (1 / 10) (0, 1 / 4)),
        projr (async_mock_fetch_article_content ''b'' (1 / 10) (0, 1 / 4))]"
      "\<lparr>pool_max_workers = 2, pool_processes = 0, pool_shutdown = False\<rparr>", THEN conjunct2]
  by (simp add: fetch_tasks_def executor_def NewsArticleAgent_init_def
      SummarizeCategorizeStrategy_def run_cpu_task_in_executor_def submit_def
      cpu_mock_analyze_article_text_def async_mock_fetch_article_content_def
      agent_config_fixture_def executor_manager_fixture_def sample_env_def)



text \<open>
  Claim C4. Two calls of the provided strategy on raw articles with the same url and the
  same content have the same outcome up to the measured duration: the second outcome is
  the first one with \<open>analysis_time\<close> replaced by the duration the second call measured
  (and the same exception when the calls fail).
\<close>

theorem strategy_pure:
  assumes "raw_url a = raw_url b" and "content a = content b"
  shows "SummarizeCategorizeStrategy cfg b ex c2
       = map_sum id (\<lambda>r. r\<lparr>analysis_time := duration c2\<rparr>)
           (SummarizeCategorizeStrategy cfg a ex c1)"
  using assms
  by (simp add: SummarizeCategorizeStrategy_def run_cpu_task_in_executor_def submit_def
      cpu_mock_analyze_article_text_def)

text \<open>An instance of claim C4 on concrete values.\<close>

theorem strategy_pure_witness:
  "raw_url \<lparr>raw_url = ''u'', content = ''AI engineering'', fetch_time = 1\<rparr>
     = raw_url \<lparr>raw_url = ''u'', content = ''AI engineering'', fetch_time = 2\<rparr>
   \<and> content \<lparr>raw_url = ''u'', content = ''AI engineering'', fetch_time = 1\<rparr>
     = content \<lparr>raw_url = ''u'', content = ''AI engineering'', fetch_time = 2\<rparr>
   \<and> SummarizeCategorizeStrategy agent_config_fixture
       \<lparr>raw_url = ''u'', content = ''AI engineering'', fetch_time = 2\<rparr>
       \<lparr>pool_max_workers = 2, pool_processes = 0, pool_shutdown = False\<rparr> (0, 3)
     = map_sum id (\<lambda>r. r\<lparr>analysis_time := duration (0, 3)\<rparr>)
         (SummarizeCategorizeStrategy agent_config_fixture
            \<lparr>raw_url = ''u'', content = ''AI engineering'', fetch_time = 1\<rparr>
            \<lparr>pool_max_workers = 2, pool_processes = 0, pool_shutdown = False\<rparr> (0, 1))
   \<and> SummarizeCategorizeStrategy agent_config_fixture
       \<lparr>raw_url = ''u'', content = ''AI engineering'', fetch_time = 2\<rparr>
       \<lparr>pool_max_workers = 2, pool_processes = 0, pool_shutdown = False\<rparr> (0, 3)
     = Inr \<lparr>url = ''u'',
            summary = ''Summary of u: AI engineering concepts applied to multi-agent systems.'',
            category = ''Technology'',
            entities = [''Gemini'', ''Pydantic'', ''ProcessPoolExecutor'', ''asyncio''],
            analysis_time = 3\<rparr>"
  using strategy_pure [of "\<lparr>raw_url = ''u'', content = ''AI engineering'', fetch_time = 1\<rparr>"
      "\<lparr>raw_url = ''u'', content = ''AI engineering'', fetch_time = 2\<rparr>"
      agent_config_fixture "\<lparr>pool_max_workers = 2, pool_processes = 0, pool_shutdown = False\<rparr>" "(0, 3)" "(0, 1)"]
  by (simp add: eval_defs)

text \<open>
  Claim C5, as stated, fails on the class of the error. After \<open>__aexit__\<close> the
  \<open>executor\<close> property raises \<open>RuntimeError\<close>, and so does a submission to the pool the
  manager held; no exception of class \<open>PoolClosedError\<close> exists.
\<close>

theorem submit_after_aexit_counterexample:
  "aexit executor_manager_fixture
     = Inr (\<lparr>priv_max_workers = 2, priv_executor = None\<rparr>, Some \<lparr>pool_max_workers = 2, pool_processes = 0, pool_shutdown = True\<rparr>)
   \<and> executor \<lparr>priv_max_workers = 2, priv_executor = None\<rparr>
     = Inl (RuntimeError
         ''Executor not initialized. Use ExecutorManager as an async context manager.'')
   \<and> \<not> raises_kind ''PoolClosedError''
        (executor \<lparr>priv_max_workers = 2, priv_executor = None\<rparr>)
   \<and> run_cpu_task_in_executor \<lparr>pool_max_workers = 2, pool_processes = 0, pool_shutdown = True\<rparr>
        (cpu_mock_analyze_article_text (0, 1))
        \<lparr>raw_url = ''u'', content = ''AI engineering'', fetch_time = 0\<rparr> (2 / 10)
     = Inl (RuntimeError ''cannot schedule new futures after shutdown'')
   \<and> \<not> raises_kind ''PoolClosedError''
        (run_cpu_task_in_executor \<lparr>pool_max_workers = 2, pool_processes = 0, pool_shutdown = True\<rparr>
           (cpu_mock_analyze_article_text (0, 1))
           \<lparr>raw_url = ''u'', content = ''AI engineering'', fetch_time = 0\<rparr> (2 / 10))"
  by (simp add: aexit_def executor_def executor_manager_fixture_def shutdown_def
      run_cpu_task_in_executor_def submit_def raises_kind_def RuntimeError_def)

text \<open>
  Claim C5, amended. After \<open>__aexit__\<close> has run, a further submission fails with
  \<open>RuntimeError\<close>: reading the pool from the manager raises it, and so does
  \<open>run_cpu_task_in_executor\<close> on the pool that the manager held. Closing is idempotent:
  \<open>__aexit__\<close> returns without an error in every state of the manager, so a second
  \<open>__aexit__\<close> does not error, and neither does \<open>__aexit__\<close> on a manager that was
  entered and to which no work was ever submitted.
\<close>

theorem aexit_closes:
  "(\<exists>m' closed. aexit m = Inr (m', closed)
      \<and> executor m'
        = Inl (RuntimeError
            ''Executor not initialized. Use ExecutorManager as an async context manager.'')
      \<and> (\<forall>p. closed = Some p
            \<longrightarrow> run_cpu_task_in_executor p func a b
                = Inl (RuntimeError ''cannot schedule new futures after shutdown''))
      \<and> \<not> isl (aexit m'))
   \<and> (aenter (ExecutorManager_init n) = Inr m0
        \<longrightarrow> (\<exists>m1 p. aexit m0 = Inr (m1, Some p) \<and> pool_processes p = 0 \<and> pool_shutdown p
              \<and> \<not> isl (aexit m1)))"
  by (auto simp: aexit_def aenter_def executor_def shutdown_def run_cpu_task_in_executor_def
      submit_def ExecutorManager_init_def ProcessPoolExecutor_init_def
      split: option.splits if_splits)

text \<open>An instance of claim C5, amended, on concrete values.\<close>

theorem aexit_closes_witness:
  "aenter (ExecutorManager_init 2) = Inr executor_manager_fixture
   \<and> aexit executor_manager_fixture
     = Inr (\<lparr>priv_max_workers = 2, priv_executor = None\<rparr>, Some \<lparr>pool_max_workers = 2, pool_processes = 0, pool_shutdown = True\<rparr>)
   \<and> executor \<lparr>priv_max_workers = 2, priv_executor = None\<rparr>
     = Inl (RuntimeError
         ''Executor not initialized. Use ExecutorManager as an async context manager.'')
   \<and> run_cpu_task_in_executor \<lparr>pool_max_workers = 2, pool_processes = 0, pool_shutdown = True\<rparr>
        (cpu_mock_analyze_article_text (0, 1))
        \<lparr>raw_url = ''u'', content = ''AI engineering'', fetch_time = 0\<rparr> (2 / 10)
     = Inl (RuntimeError ''cannot schedule new futures after shutdown'')
   \<and> \<not> isl (aexit \<lparr>priv_max_workers = 2, priv_executor = None\<rparr>)"
  using aexit_closes [of executor_manager_fixture "cpu_mock_analyze_article_text (0, 1)"
      "\<lparr>raw_url = ''u'', content = ''AI engineering'', fetch_time = 0\<rparr>" "2 / 10" 2
      executor_manager_fixture]
  by (simp add: aexit_def aenter_def executor_manager_fixture_def shutdown_def
      ExecutorManager_init_def ProcessPoolExecutor_init_def)




text \<open>
  Claim C7. Changing \<open>api_timeout\<close> in the configuration changes nothing in what
  \<open>research\<close> does: in the same environment it returns the same report, or fails with the
  same exception.
\<close>

theorem research_ignores_api_timeout:
  "research (NewsArticleAgent_init (cfg\<lparr>api_timeout := t\<rparr>) SummarizeCategorizeStrategy)
     mgr ev urls
   = research (NewsArticleAgent_init cfg SummarizeCategorizeStrategy) mgr ev urls"
proof -
  let ?a = "NewsArticleAgent_init (cfg\<lparr>api_timeout := t\<rparr>) SummarizeCategorizeStrategy"
  let ?b = "NewsArticleAgent_init cfg SummarizeCategorizeStrategy"
  have "SummarizeCategorizeStrategy (cfg\<lparr>api_timeout := t\<rparr>) = SummarizeCategorizeStrategy cfg"
    by (intro ext) (simp add: SummarizeCategorizeStrategy_def)
  then have s: "strategy ?a = strategy ?b"
    by (simp add: NewsArticleAgent_init_def)
  have d: "mock_fetch_delay (agent_config ?a) = mock_fetch_delay (agent_config ?b)"
    by (simp add: NewsArticleAgent_init_def)
  show ?thesis
    unfolding research_def research_with_def fetch_tasks_def process_tasks_def s d ..
qed

text \<open>An instance of claim C7 on concrete values.\<close>

theorem research_ignores_api_timeout_witness:
  "research
     (NewsArticleAgent_init (agent_config_fixture\<lparr>api_timeout := 0\<rparr>)
        SummarizeCategorizeStrategy)
     executor_manager_fixture sample_env [''b'', ''a'']
   = research (NewsArticleAgent_init agent_config_fixture SummarizeCategorizeStrategy)
       executor_manager_fixture sample_env [''b'', ''a'']
   \<and> api_timeout (agent_config_fixture\<lparr>api_timeout := 0\<rparr>)
       \<noteq> api_timeout agent_config_fixture"
  using research_ignores_api_timeout [of 0 agent_config_fixture executor_manager_fixture
      sample_env "[''b'', ''a'']"]
  by (simp add: agent_config_fixture_def)

text \<open>
  Claim C9. The content that the mock fetch returns contains \<open>AI engineering\<close> for every
  url, and every result in a report of \<open>research\<close> has category \<open>Technology\<close>, never
  \<open>General\<close>.
\<close>

theorem research_category_technology:
  "(\<exists>raw. async_mock_fetch_article_content u delay c = Inr raw
           \<and> sublist ''AI engineering'' (content raw))
   \<and> (research (NewsArticleAgent_init cfg SummarizeCategorizeStrategy) mgr ev urls = Inr report
        \<longrightarrow> (\<forall>r \<in> set (results report). category r = ''Technology'' \<and> category r \<noteq> ''General''))"
proof (intro conjI impI ballI)
  show "\<exists>raw. async_mock_fetch_article_content u delay c = Inr raw
           \<and> sublist ''AI engineering'' (content raw)"
    by (metis async_mock_fetch_article_content_def mock_fetch_Inr(2))
next
  fix r
  assume res: "research (NewsArticleAgent_init cfg SummarizeCategorizeStrategy) mgr ev urls
                 = Inr report"
    and "r \<in> set (results report)"
  then obtain i where i: "i < length urls" and r: "r = results report ! i"
    using research_nth(1) [OF res] by (auto simp: in_set_conv_nth)
  from research_nth(2) [OF res i] obtain ex raw
    where "SummarizeCategorizeStrategy cfg raw ex (analysis_clock ev i) = Inr (results report ! i)"
      and "sublist ''AI engineering'' (content raw)"
    by blast
  with r have "category r = ''Technology''"
    by (simp add: strategy_Inr_category)
  then show "category r = ''Technology''" and "category r \<noteq> ''General''" by simp_all
qed

text \<open>An instance of claim C9 on concrete values.\<close>

theorem research_category_technology_witness:
  "\<not> isl (research (NewsArticleAgent_init agent_config_fixture SummarizeCategorizeStrategy)
       executor_manager_fixture sample_env [''b'', ''a''])
   \<and> results (projr (research
         (NewsArticleAgent_init agent_config_fixture SummarizeCategorizeStrategy)
         executor_manager_fixture sample_env [''b'', ''a''])) ! 1
     \<in> set (results (projr (research
         (NewsArticleAgent_init agent_config_fixture SummarizeCategorizeStrategy)
         executor_manager_fixture sample_env [''b'', ''a''])))
   \<and> category (results (projr (research
         (NewsArticleAgent_init agent_config_fixture SummarizeCategorizeStrategy)
         executor_manager_fixture sample_env [''b'', ''a''])) ! 1) = ''Technology''
   \<and> sublist ''AI engineering''
       (content (projr (async_mock_fetch_article_content ''b'' (1 / 10) (0, 1 / 4))))"
proof -
  have h: "research (NewsArticleAgent_init agent_config_fixture SummarizeCategorizeStrategy)
             executor_manager_fixture sample_env [''b'', ''a'']
           = Inr (projr (research
               (NewsArticleAgent_init agent_config_fixture SummarizeCategorizeStrategy)
               executor_manager_fixture sample_env [''b'', ''a'']))"
    by (simp add: research_fixture)
  from research_category_technology [of "''b''" "1 / 10" "(0, 1 / 4)" agent_config_fixture
      executor_manager_fixture sample_env "[''b'', ''a'']"
      "projr (research (NewsArticleAgent_init agent_config_fixture SummarizeCategorizeStrategy)
         executor_manager_fixture sample_env [''b'', ''a''])"] h
  show ?thesis by (auto simp: research_fixture)
qed

text \<open>
  Claim C10. \<open>total_duration\<close> is not a field of \<open>NewsAgentReport\<close>. Constructing the
  report from the four keywords that \<open>research\<close> passes succeeds for all values, drops
  \<open>total_duration\<close> and yields exactly the fields \<open>results\<close>,
  \<open>total_articles_processed\<close> and \<open>total_time_taken\<close>; a report that \<open>research\<close>
  returns is built this way and its \<open>total_time_taken\<close> is the measured duration.
\<close>

theorem report_extra_keyword_ignored:
  "''total_duration'' \<notin> set (map field_name NewsAgentReport_fields)
   \<and> NewsAgentReport_dict
       [(''results'', PyResults rs), (''total_articles_processed'', PyInt n),
        (''total_time_taken'', PyFloat d), (''total_duration'', PyFloat d)]
     = Inr [(''results'', PyResults rs), (''total_articles_processed'', PyInt n),
            (''total_time_taken'', PyFloat d)]
   \<and> NewsAgentReport_init
       [(''results'', PyResults rs), (''total_articles_processed'', PyInt n),
        (''total_time_taken'', PyFloat d), (''total_duration'', PyFloat d)]
     = Inr \<lparr>results = rs, total_articles_processed = n, total_time_taken = d\<rparr>
   \<and> (research_with fetch self mgr ev urls = Inr report
        \<longrightarrow> NewsAgentReport_init
              [(''results'', PyResults (results report)),
               (''total_articles_processed'', PyInt (int (length urls))),
               (''total_time_taken'', PyFloat (duration (research_clock ev))),
               (''total_duration'', PyFloat (duration (research_clock ev)))]
            = Inr report
          \<and> total_time_taken report = duration (research_clock ev))"
proof (intro conjI impI)
  show "''total_duration'' \<notin> set (map field_name NewsAgentReport_fields)"
    by (simp add: NewsAgentReport_fields_def)
  assume "research_with fetch self mgr ev urls = Inr report"
  then obtain rs where r: "report = \<lparr>results = rs, total_articles_processed = int (length urls),
                         total_time_taken = duration (research_clock ev)\<rparr>"
    by (auto dest!: research_with_Inr)
  then show "NewsAgentReport_init
              [(''results'', PyResults (results report)),
               (''total_articles_processed'', PyInt (int (length urls))),
               (''total_time_taken'', PyFloat (duration (research_clock ev))),
               (''total_duration'', PyFloat (duration (research_clock ev)))]
            = Inr report"
    by (simp add: NewsAgentReport_init_research)
  from r show "total_time_taken report = duration (research_clock ev)" by simp
qed (rule NewsAgentReport_dict_research NewsAgentReport_init_research)+

text \<open>An instance of claim C10 on concrete values.\<close>

theorem report_extra_keyword_ignored_witness:
  "research_with async_mock_fetch_article_content
     (NewsArticleAgent_init agent_config_fixture SummarizeCategorizeStrategy)
     executor_manager_fixture sample_env []
   = Inr \<lparr>results = [], total_articles_processed = 0, total_time_taken = 1\<rparr>
   \<and> NewsAgentReport_init
         [(''results'', PyResults []), (''total_articles_processed'', PyInt 0),
          (''total_time_taken'', PyFloat 1), (''total_duration'', PyFloat 1)]
     = Inr \<lparr>results = [], total_articles_processed = 0, total_time_taken = 1\<rparr>
   \<and> total_time_taken \<lparr>results = [], total_articles_processed = 0, total_time_taken = 1\<rparr>
     = duration (research_clock sample_env)"
proof -
  have h: "research_with async_mock_fetch_article_content
     (NewsArticleAgent_init agent_config_fixture SummarizeCategorizeStrategy)
     executor_manager_fixture sample_env []
   = Inr \<lparr>results = [], total_articles_processed = 0, total_time_taken = 1\<rparr>"
    by (simp add: eval_defs)
  from report_extra_keyword_ignored [of "[]" 0 1 async_mock_fetch_article_content
      "NewsArticleAgent_init agent_config_fixture SummarizeCategorizeStrategy"
      executor_manager_fixture sample_env "[]"
      "\<lparr>results = [], total_articles_processed = 0, total_time_taken = 1\<rparr>"] h
  show ?thesis by (simp add: sample_env_def duration_def)
qed

end
